theory Spec2Isabelle
  imports Complex_Main
begin

section \<open>Python string primitives used by the monitor\<close>

text \<open>
  A Python \<open>str\<close> is modelled as a \<open>string\<close> whose characters are code points below 256.
  \<open>isspace\<close> is \<open>str.isspace\<close> on that range: tab, line feed, vertical tab, form feed,
  carriage return, the four separators 28..31, space, NEL (133) and the no-break space (160).
\<close>

definition isspace :: "char \<Rightarrow> bool" where
  "isspace c =
     (let n = (of_char c :: nat)
      in (9 \<le> n \<and> n \<le> 13) \<or> (28 \<le> n \<and> n \<le> 32) \<or> n = 133 \<or> n = 160)"

text \<open>
  \<open>split_where P s\<close> cuts \<open>s\<close> at every character satisfying \<open>P\<close> and keeps the empty
  pieces, so the result is never empty.
\<close>

fun split_where :: "(char \<Rightarrow> bool) \<Rightarrow> string \<Rightarrow> string list" where
  "split_where P [] = [[]]"
| "split_where P (c # cs) =
     (let r = split_where P cs
      in if P c then [] # r else (c # hd r) # tl r)"

text \<open>\<open>s.split(sep)\<close> for a separator of one character.\<close>

definition split_sep :: "char \<Rightarrow> string \<Rightarrow> string list" where
  "split_sep sep s = split_where (\<lambda>c. c = sep) s"

text \<open>\<open>s.split()\<close>: the maximal runs of characters that are not whitespace.\<close>

definition split_ws :: "string \<Rightarrow> string list" where
  "split_ws s = filter (\<lambda>w. w \<noteq> []) (split_where isspace s)"

text \<open>\<open>s.strip()\<close>.\<close>

definition strip :: "string \<Rightarrow> string" where
  "strip s = rev (dropWhile isspace (rev (dropWhile isspace s)))"

text \<open>
  \<open>int(s)\<close> in base 10: surrounding whitespace is ignored, one sign is allowed, and the
  digits may be grouped by single underscores. \<open>None\<close> stands for the \<open>ValueError\<close>.
  The interpreter's configurable limit on the number of digits is not modelled.
\<close>

definition is_digit :: "char \<Rightarrow> bool" where
  "is_digit c = (let n = (of_char c :: nat) in 48 \<le> n \<and> n \<le> 57)"

definition digit_val :: "char \<Rightarrow> nat" where
  "digit_val c = of_char c - 48"

fun int_body :: "nat \<Rightarrow> string \<Rightarrow> nat option" where
  "int_body acc [] = Some acc"
| "int_body acc [c] = (if is_digit c then Some (10 * acc + digit_val c) else None)"
| "int_body acc (c # d # cs) =
     (if is_digit c then int_body (10 * acc + digit_val c) (d # cs)
      else if c = CHR ''_'' \<and> is_digit d then int_body acc (d # cs)
      else None)"

definition int_digits :: "string \<Rightarrow> nat option" where
  "int_digits s =
     (case s of
        [] \<Rightarrow> None
      | c # cs \<Rightarrow> if is_digit c then int_body (digit_val c) cs else None)"

definition py_int :: "string \<Rightarrow> int option" where
  "py_int s =
     (case strip s of
        [] \<Rightarrow> None
      | c # cs \<Rightarrow>
          if c = CHR ''-'' then map_option (\<lambda>n. - int n) (int_digits cs)
          else if c = CHR ''+'' then map_option int (int_digits cs)
          else map_option int (int_digits (c # cs)))"

text \<open>\<open>str(i)\<close> for an integer, as the f-strings of the monitor print it.\<close>

function str_nat :: "nat \<Rightarrow> string" where
  "str_nat n =
     (if n < 10 then [''0123456789'' ! n]
      else str_nat (n div 10) @ [''0123456789'' ! (n mod 10)])"
  by pat_completeness auto
termination
  by (relation "measure (\<lambda>n. n)") auto

declare str_nat.simps [simp del]

definition str_int :: "int \<Rightarrow> string" where
  "str_int i = (if i < 0 then CHR ''-'' # str_nat (nat (- i)) else str_nat (nat i))"

section \<open>Exceptions\<close>

text \<open>
  The classes of the exceptions that the library calls of the monitor raise, as far as
  the handlers of the monitor tell them apart. \<open>requests\<close> declares
  \<open>class ConnectTimeout(ConnectionError, Timeout)\<close> and \<open>class ReadTimeout(Timeout)\<close>.
  \<open>Not_An_Exception\<close> stands for the classes below \<open>BaseException\<close> that are not below
  \<open>Exception\<close> (\<open>KeyboardInterrupt\<close>, \<open>SystemExit\<close>): no \<open>except Exception\<close> catches them.
  An exception of a class not named here counts under the nearest class above it that is,
  and under \<open>Other_Exception\<close> when only \<open>Exception\<close> is.
\<close>

datatype exn_class =
    Requests_ConnectionError
  | Requests_ConnectTimeout
  | Requests_ReadTimeout
  | Requests_Timeout
  | Socket_timeout
  | Subprocess_TimeoutExpired
  | Other_Exception
  | Not_An_Exception

text \<open>A raised library exception: its class and its \<open>str()\<close>.\<close>

datatype raised = Raised exn_class string

fun is_Exception :: "exn_class \<Rightarrow> bool" where
  "is_Exception Not_An_Exception = False"
| "is_Exception _ = True"

fun is_requests_ConnectionError :: "exn_class \<Rightarrow> bool" where
  "is_requests_ConnectionError Requests_ConnectionError = True"
| "is_requests_ConnectionError Requests_ConnectTimeout = True"
| "is_requests_ConnectionError _ = False"

fun is_requests_Timeout :: "exn_class \<Rightarrow> bool" where
  "is_requests_Timeout Requests_Timeout = True"
| "is_requests_Timeout Requests_ConnectTimeout = True"
| "is_requests_Timeout Requests_ReadTimeout = True"
| "is_requests_Timeout _ = False"

fun is_socket_timeout :: "exn_class \<Rightarrow> bool" where
  "is_socket_timeout Socket_timeout = True"
| "is_socket_timeout _ = False"

fun is_TimeoutExpired :: "exn_class \<Rightarrow> bool" where
  "is_TimeoutExpired Subprocess_TimeoutExpired = True"
| "is_TimeoutExpired _ = False"

text \<open>
  What leaves the pod functions: the \<open>ValueError\<close> of \<open>int()\<close> (with the rejected
  literal), the \<open>IndexError\<close> of a list subscript, or a library exception on its way up.
\<close>

datatype exn = ValueError string | IndexError | Propagated raised

text \<open>\<open>xs[i]\<close> for an index that is not negative.\<close>

definition getitem :: "'a list \<Rightarrow> nat \<Rightarrow> exn + 'a" where
  "getitem xs i = (if i < length xs then Inr (xs ! i) else Inl IndexError)"

section \<open>Data model\<close>

record PodStatus =
  name :: string
  ready :: string
  status :: string
  restarts :: int
  age :: string
  namespace :: string

record ServiceTest =
  name :: string
  port :: int
  service_type :: string
  test_endpoint :: string

text \<open>The defaults of the two optional fields of \<open>ServiceTest\<close>.\<close>

definition ServiceTest3 :: "string \<Rightarrow> int \<Rightarrow> string \<Rightarrow> ServiceTest" where
  "ServiceTest3 n p t =
     \<lparr>ServiceTest.name = n, port = p, service_type = t, test_endpoint = ''/''\<rparr>"

record KubernetesMonitor =
  kubeconfig_path :: string
  services :: "ServiceTest list"

definition KubernetesMonitor_init :: "string \<Rightarrow> KubernetesMonitor" where
  "KubernetesMonitor_init path =
     \<lparr>kubeconfig_path = path,
      services =
        [\<lparr>ServiceTest.name = ''frontend'', port = 8080, service_type = ''http'',
          test_endpoint = ''/''\<rparr>,
         ServiceTest3 ''cart'' 8883 ''grpc'',
         ServiceTest3 ''checkout'' 8884 ''grpc'',
         ServiceTest3 ''email'' 8885 ''grpc'',
         ServiceTest3 ''order'' 8885 ''grpc'',
         ServiceTest3 ''payment'' 8886 ''grpc'',
         ServiceTest3 ''product'' 8881 ''grpc'',
         ServiceTest3 ''user'' 8882 ''grpc'']\<rparr>"

section \<open>The environment\<close>

text \<open>
  A handle of \<open>subprocess.Popen\<close>, named by its process id. As an object without
  \<open>__bool__\<close> and \<open>__len__\<close> it is true in a condition.
\<close>

datatype popen = Popen nat

text \<open>
  What the calls into the operating system and the network answer. Each takes the
  arguments the monitor passes (the first argument of the two process calls is the value
  put into \<open>KUBECONFIG\<close>) and either raises or returns:
  \<^item> \<open>subprocess_run\<close>: the return code and the captured standard output;
  \<^item> \<open>subprocess_Popen\<close>: the handle of the started child;
  \<^item> \<open>time_sleep\<close>: nothing, unless it is interrupted;
  \<^item> \<open>requests_get\<close> (url, timeout): the status code of the response, with the value of
    \<open>time.time() - start_time\<close> read after it;
  \<^item> \<open>socket_connect_ex\<close> (host, port, timeout), for the creation of the socket,
    \<open>settimeout\<close>, \<open>connect_ex\<close> and \<open>close\<close>: the error number that \<open>connect_ex\<close> returns,
    with the value of \<open>time.time() - start_time\<close> read after it.
  \<open>terminate\<close> and \<open>wait\<close> on a handle return.
\<close>

record world =
  subprocess_run :: "string \<Rightarrow> string list \<Rightarrow> raised + (int \<times> string)"
  subprocess_Popen :: "string \<Rightarrow> string list \<Rightarrow> raised + popen"
  time_sleep :: "int \<Rightarrow> raised option"
  requests_get :: "string \<Rightarrow> int \<Rightarrow> raised + (int \<times> real)"
  socket_connect_ex :: "string \<Rightarrow> int \<Rightarrow> int \<Rightarrow> raised + (int \<times> real)"

section \<open>Pod status\<close>

text \<open>
  The functions are modelled by what they return or raise; what they print to the console
  has no part in either.
\<close>

definition run_kubectl_command ::
  "world \<Rightarrow> KubernetesMonitor \<Rightarrow> string list \<Rightarrow> raised + (bool \<times> string)" where
  "run_kubectl_command w self command =
     (case subprocess_run w (kubeconfig_path self) command of
        Inr (returncode, stdout) \<Rightarrow> Inr (returncode = 0, strip stdout)
      | Inl (Raised c msg) \<Rightarrow>
          if is_TimeoutExpired c then Inr (False, ''Command timeout'')
          else if is_Exception c then Inr (False, msg)
          else Inl (Raised c msg))"

text \<open>
  The body of the loop of \<open>get_pod_status\<close> on one line: the record to append, if any.
\<close>

definition parse_line :: "string \<Rightarrow> exn + PodStatus option" where
  "parse_line line =
     (if strip line \<noteq> [] then
        (let parts = split_ws line
         in if length parts \<ge> 5 then
              (case py_int (parts ! 3) of
                 None \<Rightarrow> Inl (ValueError (parts ! 3))
               | Some r \<Rightarrow>
                   Inr (Some \<lparr>PodStatus.name = parts ! 0, ready = parts ! 1,
                              status = parts ! 2, restarts = r, age = parts ! 4,
                              namespace = ''default''\<rparr>))
            else Inr None)
      else Inr None)"

fun parse_loop :: "string list \<Rightarrow> PodStatus list \<Rightarrow> exn + PodStatus list" where
  "parse_loop [] pods = Inr pods"
| "parse_loop (line # rest) pods =
     (case parse_line line of
        Inl e \<Rightarrow> Inl e
      | Inr None \<Rightarrow> parse_loop rest pods
      | Inr (Some pod) \<Rightarrow> parse_loop rest (pods @ [pod]))"

definition get_pods_command :: "string list" where
  "get_pods_command = [''kubectl'', ''get'', ''pods'', ''-o'', ''wide'', ''--no-headers'']"

definition get_pod_status :: "world \<Rightarrow> KubernetesMonitor \<Rightarrow> exn + PodStatus list" where
  "get_pod_status w self =
     (case run_kubectl_command w self get_pods_command of
        Inl e \<Rightarrow> Inl (Propagated e)
      | Inr (success, output) \<Rightarrow>
          if \<not> success then Inr []
          else parse_loop (split_sep (CHR 0x0A) output) [])"

text \<open>
  The condition of the loop of \<open>check_pods_health\<close>: \<open>and\<close> evaluates its right operand
  only when the left one holds, and the subscripts raise when the piece is missing.
\<close>

definition pod_condition :: "PodStatus \<Rightarrow> exn + bool" where
  "pod_condition pod =
     (if status pod = ''Running'' then
        (case getitem (split_sep (CHR ''/'') (ready pod)) 0 of
           Inl e \<Rightarrow> Inl e
         | Inr numerator \<Rightarrow>
             (case getitem (split_sep (CHR ''/'') (ready pod)) 1 of
                Inl e \<Rightarrow> Inl e
              | Inr denominator \<Rightarrow> Inr (numerator = denominator)))
      else Inr False)"

text \<open>The restart column of the table, without its colours.\<close>

datatype restart_indicator = No_restarts | Warning int | Critical int

definition restart_indicator_of :: "PodStatus \<Rightarrow> restart_indicator" where
  "restart_indicator_of pod =
     (if restarts pod > 0 then
        (if restarts pod > 5 then Critical (restarts pod) else Warning (restarts pod))
      else No_restarts)"

type_synonym table_row = "bool \<times> string \<times> string \<times> string \<times> restart_indicator \<times> string"

fun check_pods_loop ::
  "PodStatus list \<Rightarrow> table_row list \<times> bool \<Rightarrow> exn + (table_row list \<times> bool)" where
  "check_pods_loop [] st = Inr st"
| "check_pods_loop (pod # rest) (table_data, all_healthy) =
     (case pod_condition pod of
        Inl e \<Rightarrow> Inl e
      | Inr ok \<Rightarrow>
          check_pods_loop rest
            (table_data @
               [(ok, PodStatus.name pod, status pod, ready pod, restart_indicator_of pod,
                 age pod)],
             if ok then all_healthy else False))"

definition check_pods_health :: "world \<Rightarrow> KubernetesMonitor \<Rightarrow> exn + bool" where
  "check_pods_health w self =
     (case get_pod_status w self of
        Inl e \<Rightarrow> Inl e
      | Inr pods \<Rightarrow>
          if pods = [] then Inr False
          else (case check_pods_loop pods ([], True) of
                  Inl e \<Rightarrow> Inl e
                | Inr (table_data, all_healthy) \<Rightarrow> Inr all_healthy))"

section \<open>Tunnels and probes\<close>

text \<open>
  The calls a probe makes, in the order it makes them. A probe returns its trace together
  with its result; the result is \<open>Inl\<close> when an exception leaves the function.
\<close>

datatype event =
    Ev_Popen string "string list"
  | Ev_sleep int
  | Ev_get string int
  | Ev_connect_ex string int int
  | Ev_terminate popen
  | Ev_wait popen

type_synonym outcome = "bool \<times> string \<times> real"

definition port_forward_service ::
  "world \<Rightarrow> KubernetesMonitor \<Rightarrow> string \<Rightarrow> int \<Rightarrow> int \<Rightarrow> event list \<times> (raised + popen)" where
  "port_forward_service w self service_name local_port service_port =
     (let cmd = [''kubectl'', ''port-forward'', ''service/'' @ service_name,
                 str_int local_port @ '':'' @ str_int service_port]
      in case subprocess_Popen w (kubeconfig_path self) cmd of
           Inl e \<Rightarrow> ([Ev_Popen (kubeconfig_path self) cmd], Inl e)
         | Inr process \<Rightarrow>
             (case time_sleep w 2 of
                Some e \<Rightarrow> ([Ev_Popen (kubeconfig_path self) cmd, Ev_sleep 2], Inl e)
              | None \<Rightarrow> ([Ev_Popen (kubeconfig_path self) cmd, Ev_sleep 2], Inr process)))"

definition test_port_connectivity ::
  "world \<Rightarrow> string \<Rightarrow> int \<Rightarrow> int \<Rightarrow> event list \<times> (raised + outcome)" where
  "test_port_connectivity w host tcp_port timeout =
     ([Ev_connect_ex host tcp_port timeout],
      case socket_connect_ex w host tcp_port timeout of
        Inr (result, response_time) \<Rightarrow>
          if result = 0 then Inr (True, ''Port open'', response_time)
          else Inr (False, ''Port closed'', response_time)
      | Inl (Raised c msg) \<Rightarrow>
          if is_socket_timeout c then Inr (False, ''Connection timeout'', of_int timeout)
          else if is_Exception c then Inr (False, msg, 0)
          else Inl (Raised c msg))"

definition test_http_service ::
  "world \<Rightarrow> string \<Rightarrow> int \<Rightarrow> event list \<times> (raised + outcome)" where
  "test_http_service w url timeout =
     ([Ev_get url timeout],
      case requests_get w url timeout of
        Inr (status_code, response_time) \<Rightarrow>
          if status_code = 200 then Inr (True, ''HTTP '' @ str_int status_code, response_time)
          else Inr (False, ''HTTP '' @ str_int status_code, response_time)
      | Inl (Raised c msg) \<Rightarrow>
          if is_requests_ConnectionError c then Inr (False, ''Connection refused'', 0)
          else if is_requests_Timeout c then Inr (False, ''Request timeout'', of_int timeout)
          else if is_Exception c then Inr (False, msg, 0)
          else Inl (Raised c msg))"

text \<open>The defaults of the \<open>timeout\<close> parameters of the three functions.\<close>

definition test_port_connectivity_default_timeout :: int where
  "test_port_connectivity_default_timeout = 5"

definition test_http_service_default_timeout :: int where
  "test_http_service_default_timeout = 10"

definition test_service_connectivity_default_timeout :: int where
  "test_service_connectivity_default_timeout = 10"

text \<open>
  \<open>port_forward_process\<close> stays \<open>None\<close> when \<open>port_forward_service\<close> raises. The handler
  \<open>except Exception\<close> covers the whole body, and the \<open>finally\<close> block runs on every way
  out of it.
\<close>

definition test_service_connectivity ::
  "world \<Rightarrow> KubernetesMonitor \<Rightarrow> ServiceTest \<Rightarrow> int \<Rightarrow> event list \<times> (raised + outcome)" where
  "test_service_connectivity w self service timeout =
     (let local_port = 8000 + port service;
          (started, forward) =
             port_forward_service w self (ServiceTest.name service) local_port (port service);
          port_forward_process = (case forward of Inl e \<Rightarrow> None | Inr process \<Rightarrow> Some process);
          (tested, body) =
             (case forward of
                Inl e \<Rightarrow> ([], Inl e)
              | Inr process \<Rightarrow>
                  if service_type service = ''http'' then
                    test_http_service w
                      (''http://localhost:'' @ str_int local_port @ test_endpoint service)
                      timeout
                  else test_port_connectivity w ''localhost'' local_port timeout);
          result =
             (case body of
                Inr out \<Rightarrow> Inr out
              | Inl (Raised c msg) \<Rightarrow>
                  if is_Exception c then Inr (False, msg, 0) else Inl (Raised c msg));
          released =
             (case port_forward_process of
                None \<Rightarrow> []
              | Some process \<Rightarrow> [Ev_terminate process, Ev_wait process])
      in (started @ tested @ released, result))"

text \<open>\<open>run_connectivity_tests\<close> probes each service with \<open>test_service_connectivity(service)\<close>.\<close>

definition probe :: "world \<Rightarrow> KubernetesMonitor \<Rightarrow> ServiceTest \<Rightarrow> event list \<times> (raised + outcome)" where
  "probe w self service =
     test_service_connectivity w self service test_service_connectivity_default_timeout"

section \<open>Relations and example inputs used in the statements\<close>

text \<open>A record carries the fields of a line, position by position.\<close>

definition from_line :: "PodStatus \<Rightarrow> string \<Rightarrow> bool" where
  "from_line pod line =
     (PodStatus.name pod = split_ws line ! 0 \<and> ready pod = split_ws line ! 1 \<and>
      status pod = split_ws line ! 2 \<and> py_int (split_ws line ! 3) = Some (restarts pod) \<and>
      age pod = split_ws line ! 4 \<and> namespace pod = ''default'')"

text \<open>
  An environment in which \<open>kubectl\<close> exits with 0 after printing \<open>out\<close>, the tunnel starts
  as process 4242, and the two network calls answer \<open>got\<close> and \<open>conn\<close>.
\<close>

definition fixture :: "string \<Rightarrow> raised + (int \<times> real) \<Rightarrow> raised + (int \<times> real) \<Rightarrow> world" where
  "fixture out got conn =
     \<lparr>subprocess_run = (\<lambda>_ _. Inr (0, out)),
      subprocess_Popen = (\<lambda>_ _. Inr (Popen 4242)),
      time_sleep = (\<lambda>_. None),
      requests_get = (\<lambda>_ _. got),
      socket_connect_ex = (\<lambda>_ _ _. conn)\<rparr>"

definition pods_only :: "string \<Rightarrow> world" where
  "pods_only out = fixture out (Inr (200, 0)) (Inr (0, 0))"

definition monitor :: KubernetesMonitor where
  "monitor = KubernetesMonitor_init ''kind-kubeconfig.yaml''"

definition svcA :: PodStatus where
  "svcA = \<lparr>PodStatus.name = ''svcA'', ready = ''2/2'', status = ''Running'', restarts = 0,
           age = ''5d'', namespace = ''default''\<rparr>"

definition svcB :: PodStatus where
  "svcB = \<lparr>PodStatus.name = ''svcB'', ready = ''1/2'', status = ''Running'', restarts = 9,
           age = ''1d'', namespace = ''default''\<rparr>"

definition svcC :: PodStatus where
  "svcC = \<lparr>PodStatus.name = ''svcC'', ready = ''1'', status = ''Running'', restarts = 0,
           age = ''3h'', namespace = ''default''\<rparr>"

definition svcD :: PodStatus where
  "svcD = \<lparr>PodStatus.name = ''svcD'', ready = ''1/1'', status = ''Pending'', restarts = 0,
           age = ''2m'', namespace = ''default''\<rparr>"

definition listing_AB :: string where
  "listing_AB = ''svcA 2/2 Running 0 5d'' @ CHR 0x0A # ''svcB   1/2   Running   9   1d''"

definition listing_short :: string where
  "listing_short =
     ''svcA 2/2 Running 0 5d'' @ CHR 0x0A # ''No resources found'' @ CHR 0x0A # CHR 0x0A #
     ''svcB 1/2 Running 9 1d''"

definition listing_bad_restarts :: string where
  "listing_bad_restarts =
     ''svcA 2/2 Running 0 5d'' @ CHR 0x0A # ''svcB 1/2 Running many 1d''"

definition listing_C :: string where
  "listing_C = ''svcA 2/2 Running 0 5d'' @ CHR 0x0A # ''svcC 1 Running 0 3h''"

text \<open>The network call a probe of \<open>service\<close> makes once its tunnel has started.\<close>

definition network_call :: "ServiceTest \<Rightarrow> int \<Rightarrow> event" where
  "network_call service timeout =
     (if service_type service = ''http'' then
        Ev_get (''http://localhost:'' @ str_int (8000 + port service) @ test_endpoint service)
          timeout
      else Ev_connect_ex ''localhost'' (8000 + port service) timeout)"

text \<open>Four entries of the registry, and environments for the probes.\<close>

definition frontend :: ServiceTest where
  "frontend = services monitor ! 0"

definition cart :: ServiceTest where
  "cart = services monitor ! 1"

definition email :: ServiceTest where
  "email = services monitor ! 3"

definition order :: ServiceTest where
  "order = services monitor ! 4"

definition refusing :: world where
  "refusing = fixture [] (Inl (Raised Requests_ConnectionError ''refused'')) (Inr (111, 1 / 8))"

definition interrupted :: world where
  "interrupted = fixture [] (Inl (Raised Not_An_Exception ''interrupted'')) (Inr (0, 0))"

definition connect_timing_out :: world where
  "connect_timing_out =
     fixture [] (Inl (Raised Requests_ConnectTimeout ''connect timed out'')) (Inr (0, 0))"

definition read_timing_out :: world where
  "read_timing_out =
     fixture [] (Inl (Raised Requests_ReadTimeout ''read timed out'')) (Inr (0, 0))"

section \<open>Pod listing and pod health: the proofs\<close>

lemma split_where_ne: "split_where P s \<noteq> []"
  by (induction s) (auto simp: Let_def)

lemma split_where_no: "\<forall>c\<in>set s. \<not> P c \<Longrightarrow> split_where P s = [s]"
  by (induction s) (auto simp: Let_def)

lemma split_where_append:
  "\<forall>c\<in>set a. \<not> P c \<Longrightarrow> P x \<Longrightarrow> split_where P (a @ x # b) = a # split_where P b"
  by (induction a) (auto simp: Let_def)

lemma split_where_single: "length (split_where P s) = 1 \<longleftrightarrow> (\<forall>c\<in>set s. \<not> P c)"
proof (induction s)
  case Nil
  show ?case by simp
next
  case (Cons c cs)
  obtain r rs where r: "split_where P cs = r # rs"
    using split_where_ne [of P cs] by (cases "split_where P cs") auto
  show ?case using Cons r by (auto simp: Let_def)
qed

lemma pod_condition_cases:
  "pod_condition pod =
     (if status pod \<noteq> ''Running'' then Inr False
      else case split_sep (CHR ''/'') (ready pod) of
             n # d # rest \<Rightarrow> Inr (n = d)
           | _ \<Rightarrow> Inl IndexError)"
  using split_where_ne [of "\<lambda>c. c = CHR ''/''" "ready pod"]
  by (auto simp: pod_condition_def getitem_def split_sep_def split: list.splits)

lemma pod_condition_N_N:
  "status pod = ''Running'' \<Longrightarrow> CHR ''/'' \<notin> set n \<Longrightarrow> CHR ''/'' \<notin> set d \<Longrightarrow>
   ready pod = n @ CHR ''/'' # d \<Longrightarrow> pod_condition pod = Inr (n = d)"
proof -
  assume r: "status pod = ''Running''" and n: "CHR ''/'' \<notin> set n" and d: "CHR ''/'' \<notin> set d"
    and rd: "ready pod = n @ CHR ''/'' # d"
  have "split_where (\<lambda>c. c = CHR ''/'') (n @ CHR ''/'' # d) = n # split_where (\<lambda>c. c = CHR ''/'') d"
    using n by (intro split_where_append) auto
  moreover have "split_where (\<lambda>c. c = CHR ''/'') d = [d]"
    using d by (intro split_where_no) auto
  ultimately show ?thesis
    using r rd by (simp add: pod_condition_cases split_sep_def)
qed

text \<open>
  Claim C3. A pod is classified healthy exactly when its phase is \<open>Running\<close> and the first
  two pieces of its ready field, split at \<open>/\<close>, are equal; it is classified unhealthy
  exactly when its phase is another one or the two pieces differ. For a ready field
  \<open>n/d\<close> with a single \<open>/\<close> and a running pod the classification is therefore \<open>n = d\<close>.
  (A running pod whose ready field has no second piece is classified neither way: the
  subscript raises, see C10.)
\<close>

theorem pod_condition_healthy_iff:
  "(pod_condition pod = Inr True \<longleftrightarrow>
      status pod = ''Running'' \<and>
      (\<exists>n d rest. split_sep (CHR ''/'') (ready pod) = n # d # rest \<and> n = d))
   \<and> (pod_condition pod = Inr False \<longleftrightarrow>
      status pod \<noteq> ''Running'' \<or>
      (\<exists>n d rest. split_sep (CHR ''/'') (ready pod) = n # d # rest \<and> n \<noteq> d))
   \<and> (\<forall>n d. status pod = ''Running'' \<and> CHR ''/'' \<notin> set n \<and> CHR ''/'' \<notin> set d \<and>
            ready pod = n @ CHR ''/'' # d \<longrightarrow> pod_condition pod = Inr (n = d))"
proof (intro conjI allI impI)
  show "pod_condition pod = Inr True \<longleftrightarrow>
      status pod = ''Running'' \<and>
      (\<exists>n d rest. split_sep (CHR ''/'') (ready pod) = n # d # rest \<and> n = d)"
    by (auto simp: pod_condition_cases split: list.splits)
  show "pod_condition pod = Inr False \<longleftrightarrow>
      status pod \<noteq> ''Running'' \<or>
      (\<exists>n d rest. split_sep (CHR ''/'') (ready pod) = n # d # rest \<and> n \<noteq> d)"
    by (auto simp: pod_condition_cases split: list.splits)
next
  fix n d
  assume "status pod = ''Running'' \<and> CHR ''/'' \<notin> set n \<and> CHR ''/'' \<notin> set d \<and>
            ready pod = n @ CHR ''/'' # d"
  then show "pod_condition pod = Inr (n = d)"
    by (simp add: pod_condition_N_N)
qed

theorem pod_condition_healthy_iff_witness:
  "pod_condition svcA = Inr True \<and> pod_condition svcB = Inr False \<and>
   pod_condition svcD = Inr False"
proof -
  have a: "status svcA = ''Running'' \<and>
      (\<exists>n d rest. split_sep (CHR ''/'') (ready svcA) = n # d # rest \<and> n = d)"
    by (simp add: svcA_def split_sep_def)
  have b: "\<exists>n d rest. split_sep (CHR ''/'') (ready svcB) = n # d # rest \<and> n \<noteq> d"
    by (simp add: svcB_def split_sep_def)
  have d: "status svcD \<noteq> ''Running''"
    by (simp add: svcD_def)
  have "pod_condition svcA = Inr True"
    by (rule iffD2 [OF conjunct1 [OF pod_condition_healthy_iff [of svcA]] a])
  moreover have "pod_condition svcB = Inr False"
    by (rule iffD2 [OF conjunct1 [OF conjunct2 [OF pod_condition_healthy_iff [of svcB]]]
          disjI2 [OF b]])
  moreover have "pod_condition svcD = Inr False"
    by (rule iffD2 [OF conjunct1 [OF conjunct2 [OF pod_condition_healthy_iff [of svcD]]]
          disjI1 [OF d]])
  ultimately show ?thesis by simp
qed

lemma pod_condition_Inl:
  "pod_condition pod = Inl e \<longleftrightarrow>
     e = IndexError \<and> status pod = ''Running'' \<and> CHR ''/'' \<notin> set (ready pod)"
proof -
  have "length (split_sep (CHR ''/'') (ready pod)) = 1 \<longleftrightarrow> CHR ''/'' \<notin> set (ready pod)"
    unfolding split_sep_def split_where_single by auto
  moreover have "split_sep (CHR ''/'') (ready pod) \<noteq> []"
    by (simp add: split_sep_def split_where_ne)
  ultimately show ?thesis
    by (cases "split_sep (CHR ''/'') (ready pod)")
       (auto simp: pod_condition_cases split: list.splits)
qed

lemma check_pods_loop_Inr:
  "\<forall>p\<in>set pods. \<exists>h. pod_condition p = Inr h \<Longrightarrow>
   \<exists>rows. check_pods_loop pods (td, ah) =
           Inr (rows, ah \<and> (\<forall>p\<in>set pods. pod_condition p = Inr True))"
proof (induction pods arbitrary: td ah)
  case Nil
  show ?case by simp
next
  case (Cons p ps)
  from Cons.prems obtain h where h: "pod_condition p = Inr h" by auto
  from Cons.prems have rest: "\<forall>p\<in>set ps. \<exists>h. pod_condition p = Inr h" by simp
  let ?row = "(h, PodStatus.name p, status p, ready p, restart_indicator_of p, age p)"
  from Cons.IH [OF rest, of "td @ [?row]" "if h then ah else False"]
  obtain rows where
    "check_pods_loop ps (td @ [?row], if h then ah else False) =
       Inr (rows, (if h then ah else False) \<and> (\<forall>p\<in>set ps. pod_condition p = Inr True))"
    by blast
  then show ?case
    using h by (cases h) auto
qed

lemma check_pods_loop_Inl:
  "check_pods_loop pods st = Inl e \<Longrightarrow> \<exists>p\<in>set pods. pod_condition p = Inl e"
proof (induction pods arbitrary: st)
  case Nil
  then show ?case by simp
next
  case (Cons p ps)
  obtain td ah where st: "st = (td, ah)" by (cases st)
  show ?case using Cons st by (auto split: sum.splits)
qed

lemma check_pods_loop_raises:
  "\<exists>p\<in>set pods. pod_condition p = Inl e \<Longrightarrow> \<exists>e'. check_pods_loop pods st = Inl e'"
proof (induction pods arbitrary: st)
  case Nil
  then show ?case by simp
next
  case (Cons p ps)
  obtain td ah where st: "st = (td, ah)" by (cases st)
  show ?case
  proof (cases "pod_condition p")
    case (Inl a)
    then show ?thesis using st by simp
  next
    case (Inr b)
    with Cons.prems have "\<exists>p\<in>set ps. pod_condition p = Inl e" by auto
    from Cons.IH [OF this] show ?thesis using st Inr by simp
  qed
qed

lemma check_pods_health_cases:
  assumes "get_pod_status w self = Inr pods"
  shows "check_pods_health w self =
     (if pods = [] then Inr False
      else case check_pods_loop pods ([], True) of
             Inl e \<Rightarrow> Inl e | Inr (table_data, all_healthy) \<Rightarrow> Inr all_healthy)"
  using assms by (simp add: check_pods_health_def)

text \<open>
  Claim C4. When \<open>get_pod_status\<close> returns the list \<open>pods\<close>: for the empty list
  \<open>check_pods_health\<close> returns false; when every pod can be classified it returns the
  conjunction over all pods of "this pod is healthy" (and false for the empty list); and
  whenever it returns a boolean at all, that boolean is this conjunction.
\<close>

theorem check_pods_health_is_conjunction:
  assumes "get_pod_status w self = Inr pods"
  shows "(pods = [] \<longrightarrow> check_pods_health w self = Inr False)
    \<and> ((\<forall>p\<in>set pods. \<exists>h. pod_condition p = Inr h) \<longrightarrow>
         check_pods_health w self =
           Inr (pods \<noteq> [] \<and> (\<forall>p\<in>set pods. pod_condition p = Inr True)))
    \<and> (\<forall>b. check_pods_health w self = Inr b \<longrightarrow>
           b = (pods \<noteq> [] \<and> (\<forall>p\<in>set pods. pod_condition p = Inr True)))"
proof (intro conjI impI allI)
  assume "pods = []"
  then show "check_pods_health w self = Inr False"
    by (simp add: check_pods_health_cases [OF assms])
next
  assume ok: "\<forall>p\<in>set pods. \<exists>h. pod_condition p = Inr h"
  from check_pods_loop_Inr [OF ok, of "[]" True]
  obtain rows where
    "check_pods_loop pods ([], True) =
       Inr (rows, True \<and> (\<forall>p\<in>set pods. pod_condition p = Inr True))"
    by blast
  then show "check_pods_health w self =
      Inr (pods \<noteq> [] \<and> (\<forall>p\<in>set pods. pod_condition p = Inr True))"
    by (simp add: check_pods_health_cases [OF assms])
next
  fix b
  assume b: "check_pods_health w self = Inr b"
  show "b = (pods \<noteq> [] \<and> (\<forall>p\<in>set pods. pod_condition p = Inr True))"
  proof (cases "pods = []")
    case True
    with b show ?thesis by (simp add: check_pods_health_cases [OF assms])
  next
    case False
    with b obtain rows where loop: "check_pods_loop pods ([], True) = Inr (rows, b)"
      by (auto simp: check_pods_health_cases [OF assms] split: sum.splits)
    have ok: "\<forall>p\<in>set pods. \<exists>h. pod_condition p = Inr h"
    proof
      fix p assume p: "p \<in> set pods"
      show "\<exists>h. pod_condition p = Inr h"
      proof (cases "pod_condition p")
        case (Inl e)
        with p have "\<exists>p\<in>set pods. pod_condition p = Inl e" by blast
        from check_pods_loop_raises [OF this, of "([], True)"] loop show ?thesis by simp
      next
        case (Inr h)
        then show ?thesis by blast
      qed
    qed
    from check_pods_loop_Inr [OF ok, of "[]" True] loop False show ?thesis by auto
  qed
qed

theorem check_pods_health_is_conjunction_witness:
  "get_pod_status (pods_only listing_AB) monitor = Inr [svcA, svcB] \<and>
   check_pods_health (pods_only listing_AB) monitor = Inr False \<and>
   get_pod_status (pods_only ''svcA 2/2 Running 0 5d'') monitor = Inr [svcA] \<and>
   check_pods_health (pods_only ''svcA 2/2 Running 0 5d'') monitor = Inr True \<and>
   get_pod_status (pods_only []) monitor = Inr [] \<and>
   check_pods_health (pods_only []) monitor = Inr False"
proof -
  have ab: "get_pod_status (pods_only listing_AB) monitor = Inr [svcA, svcB]"
    by code_simp
  have a: "get_pod_status (pods_only ''svcA 2/2 Running 0 5d'') monitor = Inr [svcA]"
    by code_simp
  have e: "get_pod_status (pods_only []) monitor = Inr []"
    by code_simp
  have ca: "pod_condition svcA = Inr True" by code_simp
  have cb: "pod_condition svcB = Inr False" by code_simp
  show ?thesis
    using ab a e ca cb
      check_pods_health_is_conjunction [OF ab] check_pods_health_is_conjunction [OF a]
      check_pods_health_is_conjunction [OF e]
    by auto
qed

text \<open>
  Claim C10. When the list of pods holds a running pod whose ready field has no \<open>/\<close>,
  \<open>check_pods_health\<close> raises \<open>IndexError\<close> and returns no boolean.
\<close>

theorem check_pods_health_index_error:
  assumes "get_pod_status w self = Inr pods"
    and "pod \<in> set pods" and "status pod = ''Running''" and "CHR ''/'' \<notin> set (ready pod)"
  shows "check_pods_health w self = Inl IndexError"
proof -
  have "pod_condition pod = Inl IndexError"
    using assms(3,4) by (simp add: pod_condition_Inl)
  with assms(2) have "\<exists>p\<in>set pods. pod_condition p = Inl IndexError" by blast
  from check_pods_loop_raises [OF this, of "([], True)"]
  obtain e where e: "check_pods_loop pods ([], True) = Inl e" by blast
  from check_pods_loop_Inl [OF e] have "e = IndexError"
    by (auto simp: pod_condition_Inl)
  with e assms(2) show ?thesis
    by (auto simp: check_pods_health_cases [OF assms(1)])
qed

theorem check_pods_health_index_error_witness:
  "get_pod_status (pods_only listing_C) monitor = Inr [svcA, svcC] \<and>
   svcC \<in> set [svcA, svcC] \<and> status svcC = ''Running'' \<and> CHR ''/'' \<notin> set (ready svcC) \<and>
   check_pods_health (pods_only listing_C) monitor = Inl IndexError"
proof -
  have g: "get_pod_status (pods_only listing_C) monitor = Inr [svcA, svcC]"
    by code_simp
  have m: "svcC \<in> set [svcA, svcC]" by simp
  have r: "status svcC = ''Running''" by (simp add: svcC_def)
  have n: "CHR ''/'' \<notin> set (ready svcC)" by (simp add: svcC_def)
  show ?thesis
    using g m r n check_pods_health_index_error [OF g m r n] by simp
qed

lemma split_where_all: "\<forall>c\<in>set s. P c \<Longrightarrow> \<forall>w\<in>set (split_where P s). w = []"
  by (induction s) (auto simp: Let_def)

lemma strip_empty_iff: "strip s = [] \<longleftrightarrow> (\<forall>c\<in>set s. isspace c)"
proof -
  have "(\<forall>x\<in>set (dropWhile isspace s). isspace x) \<longleftrightarrow> (\<forall>x\<in>set s. isspace x)"
  proof
    assume a: "\<forall>x\<in>set (dropWhile isspace s). isspace x"
    have "dropWhile isspace s = []"
    proof (rule ccontr)
      assume ne: "dropWhile isspace s \<noteq> []"
      then have "hd (dropWhile isspace s) \<in> set (dropWhile isspace s)" by simp
      with a hd_dropWhile [OF ne] show False by blast
    qed
    then show "\<forall>x\<in>set s. isspace x" by (simp add: dropWhile_eq_Nil_conv)
  next
    assume "\<forall>x\<in>set s. isspace x"
    then show "\<forall>x\<in>set (dropWhile isspace s). isspace x"
      by (blast dest: set_dropWhileD)
  qed
  then show ?thesis
    by (simp add: strip_def dropWhile_eq_Nil_conv)
qed

lemma split_ws_blank: "strip s = [] \<Longrightarrow> split_ws s = []"
  using split_where_all [of s isspace]
  by (auto simp: strip_empty_iff split_ws_def filter_empty_conv)

lemma parse_line_cases:
  "parse_line line =
     (if 5 \<le> length (split_ws line) then
        (case py_int (split_ws line ! 3) of
           None \<Rightarrow> Inl (ValueError (split_ws line ! 3))
         | Some r \<Rightarrow>
             Inr (Some \<lparr>PodStatus.name = split_ws line ! 0, ready = split_ws line ! 1,
                        status = split_ws line ! 2, restarts = r, age = split_ws line ! 4,
                        namespace = ''default''\<rparr>))
      else Inr None)"
proof (cases "strip line = []")
  case True
  then show ?thesis by (simp add: parse_line_def split_ws_blank)
next
  case False
  then show ?thesis by (simp add: parse_line_def Let_def)
qed

lemma parse_loop_records:
  "parse_loop lines acc = Inr pods \<Longrightarrow>
   \<exists>new. pods = acc @ new \<and>
         list_all2 from_line new (filter (\<lambda>l. 5 \<le> length (split_ws l)) lines)"
proof (induction lines arbitrary: acc)
  case Nil
  then show ?case by simp
next
  case (Cons line rest)
  show ?case
  proof (cases "5 \<le> length (split_ws line)")
    case False
    with Cons.prems have "parse_loop rest acc = Inr pods"
      by (simp add: parse_line_cases)
    from Cons.IH [OF this] False show ?thesis by simp
  next
    case True
    with Cons.prems obtain r where r: "py_int (split_ws line ! 3) = Some r"
      by (cases "py_int (split_ws line ! 3)") (auto simp: parse_line_cases)
    let ?pod = "\<lparr>PodStatus.name = split_ws line ! 0, ready = split_ws line ! 1,
                  status = split_ws line ! 2, restarts = r, age = split_ws line ! 4,
                  namespace = ''default''\<rparr>"
    from Cons.prems True r have "parse_loop rest (acc @ [?pod]) = Inr pods"
      by (simp add: parse_line_cases)
    from Cons.IH [OF this] obtain new where
      new: "pods = (acc @ [?pod]) @ new"
        "list_all2 from_line new (filter (\<lambda>l. 5 \<le> length (split_ws l)) rest)"
      by blast
    have "from_line ?pod line" using r by (simp add: from_line_def)
    with new True show ?thesis by (intro exI [of _ "?pod # new"]) simp
  qed
qed

lemma parse_loop_total:
  "\<forall>line\<in>set lines. 5 \<le> length (split_ws line) \<longrightarrow> py_int (split_ws line ! 3) \<noteq> None \<Longrightarrow>
   \<exists>pods. parse_loop lines acc = Inr pods"
proof (induction lines arbitrary: acc)
  case Nil
  show ?case by simp
next
  case (Cons line rest)
  then show ?case
    by (cases "py_int (split_ws line ! 3)") (auto simp: parse_line_cases)
qed

lemma parse_loop_raises:
  "line \<in> set lines \<Longrightarrow> 5 \<le> length (split_ws line) \<Longrightarrow> py_int (split_ws line ! 3) = None \<Longrightarrow>
   \<exists>lit. parse_loop lines acc = Inl (ValueError lit)"
proof (induction lines arbitrary: acc)
  case Nil
  then show ?case by simp
next
  case (Cons l rest)
  show ?case
  proof (cases "parse_line l")
    case (Inl e)
    then have "\<exists>lit. e = ValueError lit"
      by (auto simp: parse_line_cases split: if_splits option.splits)
    with Inl show ?thesis by auto
  next
    case (Inr rec)
    with Cons.prems have "line \<noteq> l" by (auto simp: parse_line_cases)
    with Cons.prems have "line \<in> set rest" by simp
    from Cons.IH [OF this Cons.prems(2,3)] Inr show ?thesis
      by (cases rec) auto
  qed
qed

lemma get_pod_status_cases:
  assumes "run_kubectl_command w self get_pods_command = Inr (True, output)"
  shows "get_pod_status w self = parse_loop (split_sep (CHR 0x0A) output) []"
  using assms by (simp add: get_pod_status_def)

text \<open>
  Claim C7. When \<open>kubectl\<close> succeeded with \<open>output\<close>: a line with fewer than five fields
  adds no record and raises nothing; the records that \<open>get_pod_status\<close> returns are, one
  for one and in the order of the input, those of the lines with at least five fields;
  and \<open>get_pod_status\<close> returns whenever the restart field of each such line is numeric,
  whatever the shorter lines hold.
\<close>

theorem get_pod_status_drops_short_lines:
  assumes "run_kubectl_command w self get_pods_command = Inr (True, output)"
  shows "(\<forall>line\<in>set (split_sep (CHR 0x0A) output).
            length (split_ws line) < 5 \<longrightarrow> parse_line line = Inr None)
    \<and> (\<forall>pods. get_pod_status w self = Inr pods \<longrightarrow>
          list_all2 from_line pods
            (filter (\<lambda>l. 5 \<le> length (split_ws l)) (split_sep (CHR 0x0A) output)))
    \<and> ((\<forall>line\<in>set (split_sep (CHR 0x0A) output).
            5 \<le> length (split_ws line) \<longrightarrow> py_int (split_ws line ! 3) \<noteq> None) \<longrightarrow>
         (\<exists>pods. get_pod_status w self = Inr pods))"
proof (intro conjI allI impI ballI)
  fix line
  assume "length (split_ws line) < 5"
  then show "parse_line line = Inr None" by (simp add: parse_line_cases)
next
  fix pods
  assume "get_pod_status w self = Inr pods"
  then have "parse_loop (split_sep (CHR 0x0A) output) [] = Inr pods"
    by (simp add: get_pod_status_cases [OF assms])
  from parse_loop_records [OF this]
  show "list_all2 from_line pods
          (filter (\<lambda>l. 5 \<le> length (split_ws l)) (split_sep (CHR 0x0A) output))"
    by simp
next
  assume "\<forall>line\<in>set (split_sep (CHR 0x0A) output).
            5 \<le> length (split_ws line) \<longrightarrow> py_int (split_ws line ! 3) \<noteq> None"
  from parse_loop_total [OF this, of "[]"]
  show "\<exists>pods. get_pod_status w self = Inr pods"
    by (simp add: get_pod_status_cases [OF assms])
qed

theorem get_pod_status_drops_short_lines_witness:
  "run_kubectl_command (pods_only listing_short) monitor get_pods_command =
     Inr (True, listing_short) \<and>
   ''No resources found'' \<in> set (split_sep (CHR 0x0A) listing_short) \<and>
   length (split_ws ''No resources found'') < 5 \<and>
   parse_line ''No resources found'' = Inr None \<and>
   get_pod_status (pods_only listing_short) monitor = Inr [svcA, svcB] \<and>
   list_all2 from_line [svcA, svcB]
     (filter (\<lambda>l. 5 \<le> length (split_ws l)) (split_sep (CHR 0x0A) listing_short))"
proof -
  have h: "run_kubectl_command (pods_only listing_short) monitor get_pods_command =
     Inr (True, listing_short)"
    by code_simp
  have m: "''No resources found'' \<in> set (split_sep (CHR 0x0A) listing_short)"
    by code_simp
  have s: "length (split_ws ''No resources found'') < 5"
    by code_simp
  have g: "get_pod_status (pods_only listing_short) monitor = Inr [svcA, svcB]"
    by code_simp
  note t = get_pod_status_drops_short_lines [OF h]
  from t m s have p: "parse_line ''No resources found'' = Inr None" by blast
  from t g have l: "list_all2 from_line [svcA, svcB]
     (filter (\<lambda>l. 5 \<le> length (split_ws l)) (split_sep (CHR 0x0A) listing_short))"
    by blast
  show ?thesis using h m s p g l by simp
qed

text \<open>
  Claim C8. When \<open>kubectl\<close> succeeded and some line of its output has at least five
  fields and a fourth field that \<open>int()\<close> rejects, \<open>get_pod_status\<close> raises \<open>ValueError\<close>:
  no list of records is returned, whatever the other lines hold.
\<close>

theorem get_pod_status_non_numeric_restarts:
  assumes "run_kubectl_command w self get_pods_command = Inr (True, output)"
    and "line \<in> set (split_sep (CHR 0x0A) output)"
    and "5 \<le> length (split_ws line)"
    and "py_int (split_ws line ! 3) = None"
  shows "\<exists>lit. get_pod_status w self = Inl (ValueError lit)"
  using parse_loop_raises [OF assms(2,3,4), of "[]"]
  by (simp add: get_pod_status_cases [OF assms(1)])

theorem get_pod_status_non_numeric_restarts_witness:
  "run_kubectl_command (pods_only listing_bad_restarts) monitor get_pods_command =
     Inr (True, listing_bad_restarts) \<and>
   ''svcB 1/2 Running many 1d'' \<in> set (split_sep (CHR 0x0A) listing_bad_restarts) \<and>
   5 \<le> length (split_ws ''svcB 1/2 Running many 1d'') \<and>
   py_int (split_ws ''svcB 1/2 Running many 1d'' ! 3) = None \<and>
   (\<exists>lit. get_pod_status (pods_only listing_bad_restarts) monitor = Inl (ValueError lit)) \<and>
   get_pod_status (pods_only listing_bad_restarts) monitor = Inl (ValueError ''many'')"
proof -
  have h: "run_kubectl_command (pods_only listing_bad_restarts) monitor get_pods_command =
     Inr (True, listing_bad_restarts)"
    by code_simp
  have m: "''svcB 1/2 Running many 1d'' \<in> set (split_sep (CHR 0x0A) listing_bad_restarts)"
    by code_simp
  have s: "5 \<le> length (split_ws ''svcB 1/2 Running many 1d'')"
    by code_simp
  have n: "py_int (split_ws ''svcB 1/2 Running many 1d'' ! 3) = None"
    by code_simp
  have g: "get_pod_status (pods_only listing_bad_restarts) monitor = Inl (ValueError ''many'')"
    by code_simp
  show ?thesis
    using h m s n g get_pod_status_non_numeric_restarts [OF h m s n] by simp
qed

section \<open>Tunnels and probes: the proofs\<close>

lemma port_forward_service_trace:
  "\<exists>rest. fst (port_forward_service w self n lp sp) =
      Ev_Popen (kubeconfig_path self)
        [''kubectl'', ''port-forward'', ''service/'' @ n, str_int lp @ '':'' @ str_int sp] # rest
    \<and> (rest = [] \<or> rest = [Ev_sleep 2])"
  by (auto simp: port_forward_service_def Let_def split: sum.splits option.splits)

lemma test_http_service_trace: "fst (test_http_service w url timeout) = [Ev_get url timeout]"
  by (simp add: test_http_service_def)

lemma test_port_connectivity_trace:
  "fst (test_port_connectivity w host p timeout) = [Ev_connect_ex host p timeout]"
  by (simp add: test_port_connectivity_def)

lemma test_service_connectivity_started:
  assumes "port_forward_service w self (ServiceTest.name service) (8000 + port service)
             (port service) = (started, Inr process)"
  shows "fst (test_service_connectivity w self service timeout) =
           started @ [network_call service timeout] @ [Ev_terminate process, Ev_wait process]"
  using assms
  by (simp add: test_service_connectivity_def Let_def network_call_def split_beta
        test_http_service_trace test_port_connectivity_trace)

lemma test_service_connectivity_not_started:
  assumes "port_forward_service w self (ServiceTest.name service) (8000 + port service)
             (port service) = (started, Inl e)"
  shows "fst (test_service_connectivity w self service timeout) = started"
  using assms
  by (simp add: test_service_connectivity_def Let_def)

lemma test_service_connectivity_trace:
  "fst (test_service_connectivity w self service timeout) =
     fst (port_forward_service w self (ServiceTest.name service) (8000 + port service)
            (port service)) @
     (case snd (port_forward_service w self (ServiceTest.name service) (8000 + port service)
            (port service)) of
        Inl e \<Rightarrow> []
      | Inr process \<Rightarrow>
          [network_call service timeout, Ev_terminate process, Ev_wait process])"
proof (cases "port_forward_service w self (ServiceTest.name service) (8000 + port service)
            (port service)")
  case (Pair started r)
  show ?thesis
  proof (cases r)
    case (Inl e)
    with Pair test_service_connectivity_not_started [of w self service started e timeout]
    show ?thesis by simp
  next
    case (Inr process)
    with Pair test_service_connectivity_started [of w self service started process timeout]
    show ?thesis by simp
  qed
qed

lemma test_service_connectivity_result:
  "snd (test_service_connectivity w self service timeout) =
     (case (case snd (port_forward_service w self (ServiceTest.name service)
                        (8000 + port service) (port service)) of
              Inl e \<Rightarrow> Inl e
            | Inr process \<Rightarrow>
                if service_type service = ''http'' then
                  snd (test_http_service w
                        (''http://localhost:'' @ str_int (8000 + port service) @
                         test_endpoint service) timeout)
                else snd (test_port_connectivity w ''localhost'' (8000 + port service) timeout)) of
        Inr out \<Rightarrow> Inr out
      | Inl (Raised c msg) \<Rightarrow>
          if is_Exception c then Inr (False, msg, 0) else Inl (Raised c msg))"
proof (cases "port_forward_service w self (ServiceTest.name service) (8000 + port service)
            (port service)")
  case (Pair started r)
  then show ?thesis
    by (cases r) (simp_all add: test_service_connectivity_def Let_def split_beta)
qed

lemma str_nat_numeral:
  "str_nat (numeral k) =
     (if numeral k < (10::nat) then [''0123456789'' ! numeral k]
      else str_nat (numeral k div 10) @ [''0123456789'' ! (numeral k mod 10)])"
  by (rule str_nat.simps)

lemma str_nat_small: "str_nat 0 = ''0''" "str_nat (Suc 0) = ''1''"
  by (simp_all add: str_nat.simps [of 0] str_nat.simps [of "Suc 0"])

lemmas str_int_eval = str_int_def str_nat_numeral str_nat_small

lemma fixture_port_forward:
  "port_forward_service (fixture out got conn) self n lp sp =
     ([Ev_Popen (kubeconfig_path self)
         [''kubectl'', ''port-forward'', ''service/'' @ n, str_int lp @ '':'' @ str_int sp],
       Ev_sleep 2],
      Inr (Popen 4242))"
  by (simp add: port_forward_service_def fixture_def)

lemma fixture_calls:
  "requests_get (fixture out got conn) url t = got"
  "socket_connect_ex (fixture out got conn) host p t = conn"
  by (simp_all add: fixture_def)

lemma fixture_trace:
  "fst (test_service_connectivity (fixture out got conn) self service timeout) =
     [Ev_Popen (kubeconfig_path self)
        [''kubectl'', ''port-forward'', ''service/'' @ ServiceTest.name service,
         str_int (8000 + port service) @ '':'' @ str_int (port service)],
      Ev_sleep 2, network_call service timeout, Ev_terminate (Popen 4242), Ev_wait (Popen 4242)]"
  by (simp add: test_service_connectivity_trace fixture_port_forward)

lemma registry_entries:
  "frontend = \<lparr>ServiceTest.name = ''frontend'', port = 8080, service_type = ''http'',
                test_endpoint = ''/''\<rparr>"
  "cart = \<lparr>ServiceTest.name = ''cart'', port = 8883, service_type = ''grpc'',
            test_endpoint = ''/''\<rparr>"
  "email = \<lparr>ServiceTest.name = ''email'', port = 8885, service_type = ''grpc'',
             test_endpoint = ''/''\<rparr>"
  "order = \<lparr>ServiceTest.name = ''order'', port = 8885, service_type = ''grpc'',
             test_endpoint = ''/''\<rparr>"
  by (simp_all add: frontend_def cart_def email_def order_def monitor_def
        KubernetesMonitor_init_def ServiceTest3_def)

lemma kubeconfig_monitor: "kubeconfig_path monitor = ''kind-kubeconfig.yaml''"
  by (simp add: monitor_def KubernetesMonitor_init_def)

text \<open>
  Claim C1. Whenever \<open>port_forward_service\<close> hands the probe a process handle, the calls
  of the probe end with \<open>terminate\<close> and \<open>wait\<close> on that handle and hold no other
  \<open>terminate\<close> or \<open>wait\<close>, whatever the network call answers or raises and whether the
  probe returns or an exception leaves it. When \<open>port_forward_service\<close> raises, no handle
  reached the probe and nothing is released.
\<close>

theorem tunnel_released_exactly_once:
  "case snd (port_forward_service w self (ServiceTest.name service) (8000 + port service)
              (port service)) of
     Inr process \<Rightarrow>
       (\<exists>calls. fst (test_service_connectivity w self service timeout) =
                  calls @ [Ev_terminate process, Ev_wait process]
               \<and> (\<forall>h. Ev_terminate h \<notin> set calls \<and> Ev_wait h \<notin> set calls))
   | Inl e \<Rightarrow>
       (\<forall>h. Ev_terminate h \<notin> set (fst (test_service_connectivity w self service timeout))
          \<and> Ev_wait h \<notin> set (fst (test_service_connectivity w self service timeout)))"
proof -
  let ?pf = "port_forward_service w self (ServiceTest.name service) (8000 + port service)
              (port service)"
  from port_forward_service_trace [of w self "ServiceTest.name service" "8000 + port service"
      "port service"]
  have quiet: "\<forall>h. Ev_terminate h \<notin> set (fst ?pf) \<and> Ev_wait h \<notin> set (fst ?pf)"
    by auto
  show ?thesis
  proof (cases "snd ?pf")
    case (Inl e)
    with quiet show ?thesis by (simp add: test_service_connectivity_trace)
  next
    case (Inr process)
    have "fst (test_service_connectivity w self service timeout) =
            (fst ?pf @ [network_call service timeout]) @ [Ev_terminate process, Ev_wait process]"
      using Inr by (simp add: test_service_connectivity_trace)
    moreover have "\<forall>h. Ev_terminate h \<notin> set (fst ?pf @ [network_call service timeout]) \<and>
                       Ev_wait h \<notin> set (fst ?pf @ [network_call service timeout])"
      using quiet by (auto simp: network_call_def)
    ultimately show ?thesis using Inr by (simp del: append_assoc)
  qed
qed

theorem tunnel_released_exactly_once_witness:
  "snd (port_forward_service interrupted monitor (ServiceTest.name frontend)
          (8000 + port frontend) (port frontend)) = Inr (Popen 4242) \<and>
   (\<exists>calls. fst (test_service_connectivity interrupted monitor frontend 10) =
              calls @ [Ev_terminate (Popen 4242), Ev_wait (Popen 4242)]
           \<and> (\<forall>h. Ev_terminate h \<notin> set calls \<and> Ev_wait h \<notin> set calls)) \<and>
   snd (test_service_connectivity interrupted monitor frontend 10) =
     Inl (Raised Not_An_Exception ''interrupted'')"
proof -
  have s: "snd (port_forward_service interrupted monitor (ServiceTest.name frontend)
          (8000 + port frontend) (port frontend)) = Inr (Popen 4242)"
    by (simp add: interrupted_def fixture_port_forward)
  have r: "snd (test_service_connectivity interrupted monitor frontend 10) =
     Inl (Raised Not_An_Exception ''interrupted'')"
    by (simp add: test_service_connectivity_result interrupted_def fixture_port_forward
          registry_entries test_http_service_def fixture_calls)
  show ?thesis
    using s r tunnel_released_exactly_once [of interrupted monitor frontend 10] by simp
qed

text \<open>
  Claim C5. The probe of a service starts the tunnel from local port \<open>8000 + port\<close> to the
  port of the service, and its HTTP request or TCP connect goes to \<open>localhost\<close> at that
  same local port.
\<close>

theorem local_port_is_8000_plus_port:
  "\<exists>rest. fst (test_service_connectivity w self service timeout) =
      Ev_Popen (kubeconfig_path self)
        [''kubectl'', ''port-forward'', ''service/'' @ ServiceTest.name service,
         str_int (8000 + port service) @ '':'' @ str_int (port service)] # rest
    \<and> (\<forall>url t. Ev_get url t \<in> set rest \<longrightarrow>
          url = ''http://localhost:'' @ str_int (8000 + port service) @ test_endpoint service)
    \<and> (\<forall>host p t. Ev_connect_ex host p t \<in> set rest \<longrightarrow>
          host = ''localhost'' \<and> p = 8000 + port service)"
proof -
  from port_forward_service_trace [of w self "ServiceTest.name service" "8000 + port service"
      "port service"]
  obtain rest where rest:
    "fst (port_forward_service w self (ServiceTest.name service) (8000 + port service)
            (port service)) =
      Ev_Popen (kubeconfig_path self)
        [''kubectl'', ''port-forward'', ''service/'' @ ServiceTest.name service,
         str_int (8000 + port service) @ '':'' @ str_int (port service)] # rest"
    "rest = [] \<or> rest = [Ev_sleep 2]"
    by blast
  show ?thesis
  proof (cases "snd (port_forward_service w self (ServiceTest.name service)
                  (8000 + port service) (port service))")
    case (Inl e)
    with rest show ?thesis
      by (auto simp: test_service_connectivity_trace)
  next
    case (Inr process)
    with rest show ?thesis
      by (auto simp: test_service_connectivity_trace network_call_def)
  qed
qed

theorem local_port_is_8000_plus_port_witness:
  "fst (test_service_connectivity refusing monitor cart 10) =
     [Ev_Popen ''kind-kubeconfig.yaml''
        [''kubectl'', ''port-forward'', ''service/cart'', ''16883:8883''],
      Ev_sleep 2, Ev_connect_ex ''localhost'' 16883 10,
      Ev_terminate (Popen 4242), Ev_wait (Popen 4242)] \<and>
   fst (test_service_connectivity refusing monitor frontend 10) =
     [Ev_Popen ''kind-kubeconfig.yaml''
        [''kubectl'', ''port-forward'', ''service/frontend'', ''16080:8080''],
      Ev_sleep 2, Ev_get ''http://localhost:16080/'' 10,
      Ev_terminate (Popen 4242), Ev_wait (Popen 4242)] \<and>
   (16883::int) = 8000 + port cart \<and>
   ''http://localhost:16080/'' =
     ''http://localhost:'' @ str_int (8000 + port frontend) @ test_endpoint frontend"
proof -
  have c: "fst (test_service_connectivity refusing monitor cart 10) =
     [Ev_Popen ''kind-kubeconfig.yaml''
        [''kubectl'', ''port-forward'', ''service/cart'', ''16883:8883''],
      Ev_sleep 2, Ev_connect_ex ''localhost'' 16883 10,
      Ev_terminate (Popen 4242), Ev_wait (Popen 4242)]"
    by (simp add: refusing_def fixture_trace network_call_def registry_entries
          kubeconfig_monitor str_int_eval)
  have g: "fst (test_service_connectivity refusing monitor frontend 10) =
     [Ev_Popen ''kind-kubeconfig.yaml''
        [''kubectl'', ''port-forward'', ''service/frontend'', ''16080:8080''],
      Ev_sleep 2, Ev_get ''http://localhost:16080/'' 10,
      Ev_terminate (Popen 4242), Ev_wait (Popen 4242)]"
    by (simp add: refusing_def fixture_trace network_call_def registry_entries
          kubeconfig_monitor str_int_eval)
  from local_port_is_8000_plus_port [of refusing monitor cart 10] c
  have "(16883::int) = 8000 + port cart" by auto
  moreover from local_port_is_8000_plus_port [of refusing monitor frontend 10] g
  have "''http://localhost:16080/'' =
     ''http://localhost:'' @ str_int (8000 + port frontend) @ test_endpoint frontend"
    by auto
  ultimately show ?thesis using c g by simp
qed

text \<open>
  Claim C2 fails as stated: probing the \<open>grpc\<close> service \<open>cart\<close> of the registry, the TCP
  connect is attempted with a timeout of 10 seconds, not 5, which is the value the HTTP
  check gets as well.
\<close>

theorem tcp_timeout_five_counterexample:
  "cart \<in> set (services monitor) \<and> service_type cart \<noteq> ''http'' \<and>
   fst (probe refusing monitor cart) =
     [Ev_Popen ''kind-kubeconfig.yaml''
        [''kubectl'', ''port-forward'', ''service/cart'', ''16883:8883''],
      Ev_sleep 2, Ev_connect_ex ''localhost'' 16883 10,
      Ev_terminate (Popen 4242), Ev_wait (Popen 4242)] \<and>
   test_port_connectivity_default_timeout = 5 \<and>
   Ev_connect_ex ''localhost'' 16883 test_port_connectivity_default_timeout
     \<notin> set (fst (probe refusing monitor cart)) \<and>
   test_http_service_default_timeout = 10"
proof -
  have m: "cart \<in> set (services monitor)"
    by (simp add: cart_def monitor_def KubernetesMonitor_init_def)
  have c: "fst (probe refusing monitor cart) =
     [Ev_Popen ''kind-kubeconfig.yaml''
        [''kubectl'', ''port-forward'', ''service/cart'', ''16883:8883''],
      Ev_sleep 2, Ev_connect_ex ''localhost'' 16883 10,
      Ev_terminate (Popen 4242), Ev_wait (Popen 4242)]"
    by (simp add: probe_def test_service_connectivity_default_timeout_def refusing_def
          fixture_trace network_call_def registry_entries kubeconfig_monitor str_int_eval)
  show ?thesis
    using m c
    by (simp add: registry_entries test_http_service_default_timeout_def
          test_port_connectivity_default_timeout_def)
qed

text \<open>
  Claim C2, amended. The probe hands its own \<open>timeout\<close> to the TCP connect as it does to
  the HTTP request: every connect and every request it makes carries that value, a
  service of another kind than \<open>http\<close> whose tunnel has started is connected to with it, and
  \<open>run_connectivity_tests\<close> probes with the default of 10 seconds. (The default of 5
  seconds of \<open>test_port_connectivity\<close> is what a call without the argument would use; the
  probe always passes the argument.)
\<close>

theorem probe_timeout_reaches_both_checks:
  "(\<forall>host p t. Ev_connect_ex host p t \<in> set (fst (test_service_connectivity w self service timeout))
       \<longrightarrow> t = timeout)
   \<and> (\<forall>url t. Ev_get url t \<in> set (fst (test_service_connectivity w self service timeout))
       \<longrightarrow> t = timeout)
   \<and> (\<forall>process.
         snd (port_forward_service w self (ServiceTest.name service) (8000 + port service)
                (port service)) = Inr process \<and> service_type service \<noteq> ''http'' \<longrightarrow>
         Ev_connect_ex ''localhost'' (8000 + port service) timeout
           \<in> set (fst (test_service_connectivity w self service timeout)))
   \<and> probe w self service = test_service_connectivity w self service 10"
proof -
  from port_forward_service_trace [of w self "ServiceTest.name service" "8000 + port service"
      "port service"]
  have quiet: "\<forall>host p t url.
      Ev_connect_ex host p t \<notin> set (fst (port_forward_service w self (ServiceTest.name service)
          (8000 + port service) (port service))) \<and>
      Ev_get url t \<notin> set (fst (port_forward_service w self (ServiceTest.name service)
          (8000 + port service) (port service)))"
    by auto
  show ?thesis
  proof (cases "snd (port_forward_service w self (ServiceTest.name service)
                  (8000 + port service) (port service))")
    case (Inl e)
    with quiet show ?thesis
      by (simp add: test_service_connectivity_trace probe_def
            test_service_connectivity_default_timeout_def)
  next
    case (Inr process)
    with quiet show ?thesis
      by (simp add: test_service_connectivity_trace probe_def network_call_def
            test_service_connectivity_default_timeout_def)
  qed
qed

theorem probe_timeout_reaches_both_checks_witness:
  "snd (port_forward_service refusing monitor (ServiceTest.name cart) (8000 + port cart)
          (port cart)) = Inr (Popen 4242) \<and>
   service_type cart \<noteq> ''http'' \<and>
   Ev_connect_ex ''localhost'' (8000 + port cart) 10
     \<in> set (fst (test_service_connectivity refusing monitor cart 10)) \<and>
   Ev_connect_ex ''localhost'' 16883 10 \<in> set (fst (probe refusing monitor cart))"
proof -
  have s: "snd (port_forward_service refusing monitor (ServiceTest.name cart) (8000 + port cart)
          (port cart)) = Inr (Popen 4242)"
    by (simp add: refusing_def fixture_port_forward)
  have k: "service_type cart \<noteq> ''http''"
    by (simp add: registry_entries)
  have p: "8000 + port cart = 16883"
    by (simp add: registry_entries)
  note t = probe_timeout_reaches_both_checks [of refusing monitor cart 10]
  from t s k have "Ev_connect_ex ''localhost'' (8000 + port cart) 10
     \<in> set (fst (test_service_connectivity refusing monitor cart 10))"
    by blast
  moreover from t have "probe refusing monitor cart = test_service_connectivity refusing monitor cart 10"
    by blast
  ultimately show ?thesis using s k p by simp
qed

text \<open>
  Claim C6 fails as stated: \<open>email\<close> and \<open>order\<close> are two entries of the registry with the
  port 8885, so both probes use the local port 16885.
\<close>

theorem registry_local_ports_distinct_counterexample:
  "email \<in> set (services monitor) \<and> order \<in> set (services monitor) \<and> email \<noteq> order \<and>
   8000 + port email = (16885::int) \<and> 8000 + port order = (16885::int) \<and>
   network_call email 10 = network_call order 10"
  by (simp add: registry_entries network_call_def monitor_def KubernetesMonitor_init_def
        ServiceTest3_def)

text \<open>
  Claim C6, amended. Two distinct entries of the registry get the same local port exactly
  when they are \<open>email\<close> and \<open>order\<close>; every other pair of distinct entries gets distinct
  local ports.
\<close>

theorem registry_local_ports_collide_only_for_email_order:
  "\<forall>s\<in>set (services (KubernetesMonitor_init path)).
     \<forall>t\<in>set (services (KubernetesMonitor_init path)).
       (s \<noteq> t \<and> 8000 + port s = 8000 + port t) \<longleftrightarrow>
       {ServiceTest.name s, ServiceTest.name t} = {''email'', ''order''}"
  by (simp add: KubernetesMonitor_init_def ServiceTest3_def doubleton_eq_iff)

theorem registry_local_ports_collide_only_for_email_order_witness:
  "cart \<in> set (services (KubernetesMonitor_init ''kind-kubeconfig.yaml'')) \<and>
   email \<in> set (services (KubernetesMonitor_init ''kind-kubeconfig.yaml'')) \<and>
   order \<in> set (services (KubernetesMonitor_init ''kind-kubeconfig.yaml'')) \<and>
   8000 + port cart \<noteq> 8000 + port email \<and>
   (email \<noteq> order \<and> 8000 + port email = 8000 + port order)"
proof -
  have c: "cart \<in> set (services (KubernetesMonitor_init ''kind-kubeconfig.yaml''))"
    by (simp add: registry_entries KubernetesMonitor_init_def ServiceTest3_def)
  have e: "email \<in> set (services (KubernetesMonitor_init ''kind-kubeconfig.yaml''))"
    by (simp add: registry_entries KubernetesMonitor_init_def ServiceTest3_def)
  have o: "order \<in> set (services (KubernetesMonitor_init ''kind-kubeconfig.yaml''))"
    by (simp add: registry_entries KubernetesMonitor_init_def ServiceTest3_def)
  have n1: "{ServiceTest.name cart, ServiceTest.name email} \<noteq> {''email'', ''order''}"
    by (simp add: registry_entries doubleton_eq_iff)
  have n2: "{ServiceTest.name email, ServiceTest.name order} = {''email'', ''order''}"
    by (simp add: registry_entries)
  have d: "cart \<noteq> email" by (simp add: registry_entries)
  note t = registry_local_ports_collide_only_for_email_order [of "''kind-kubeconfig.yaml''"]
  from t c e n1 d have "8000 + port cart \<noteq> 8000 + port email" by blast
  moreover from t e o n2 have "email \<noteq> order \<and> 8000 + port email = 8000 + port order" by blast
  ultimately show ?thesis using c e o by simp
qed

lemma test_http_service_outcomes:
  "requests_get w url timeout = Inr (code, elapsed) \<Longrightarrow>
     snd (test_http_service w url timeout) = Inr (code = 200, ''HTTP '' @ str_int code, elapsed)"
  "requests_get w url timeout = Inl (Raised Requests_ReadTimeout msg) \<Longrightarrow>
     snd (test_http_service w url timeout) = Inr (False, ''Request timeout'', of_int timeout)"
  "requests_get w url timeout = Inl (Raised Requests_Timeout msg) \<Longrightarrow>
     snd (test_http_service w url timeout) = Inr (False, ''Request timeout'', of_int timeout)"
  "requests_get w url timeout = Inl (Raised Requests_ConnectTimeout msg) \<Longrightarrow>
     snd (test_http_service w url timeout) = Inr (False, ''Connection refused'', 0)"
  by (simp_all add: test_http_service_def)

text \<open>
  Claim C9 at a timeout of the connection. \<open>ConnectTimeout\<close> is a \<open>Timeout\<close>, but it is
  a \<open>ConnectionError\<close> too, and that handler comes first: the outcome is
  \<open>(False, "Connection refused", 0)\<close>. A \<open>ReadTimeout\<close> gives
  \<open>(False, "Request timeout", 10)\<close>.
\<close>

theorem http_connect_timeout_reported_as_refused:
  "requests_get connect_timing_out ''http://localhost:16080/'' 10 =
     Inl (Raised Requests_ConnectTimeout ''connect timed out'') \<and>
   is_requests_Timeout Requests_ConnectTimeout \<and>
   snd (test_http_service connect_timing_out ''http://localhost:16080/'' 10) =
     Inr (False, ''Connection refused'', 0) \<and>
   snd (probe connect_timing_out monitor frontend) = Inr (False, ''Connection refused'', 0) \<and>
   snd (probe read_timing_out monitor frontend) = Inr (False, ''Request timeout'', 10)"
  by (simp add: probe_def test_service_connectivity_default_timeout_def
        test_service_connectivity_result connect_timing_out_def read_timing_out_def
        fixture_port_forward fixture_calls registry_entries test_http_service_def)

end
